theory Spec2Isabelle
  imports Complex_Main
begin

section \<open>Arcade physics: separation of two bodies on the X axis\<close>

text \<open>
  A shallow embedding of \<^verbatim>\<open>src/physics/arcade/SeparateX.js\<close>. JavaScript numbers are
  modelled by the reals: every comparison, sum and product of the source is the real one, and
  \<^verbatim>\<open>Math.sqrt\<close> is \<^term>\<open>sqrt\<close>. Rounding, infinities and NaN are therefore outside the
  model; wherever the source divides or takes a square root the theorems assume positive
  masses, on which the real operations and the JavaScript ones denote the same function up to
  rounding.

  The two bodies of a call are two distinct objects. Mutation of a body is explicit state
  passing: every step takes the body and returns the updated one.
\<close>

subsection \<open>Data\<close>

text \<open>
  The constants of \<^verbatim>\<open>./const\<close> that the function compares against. Only their being
  distinct matters.
\<close>

datatype facing = FACING_NONE | FACING_UP | FACING_DOWN | FACING_LEFT | FACING_RIGHT

datatype physics_type = DYNAMIC_BODY | STATIC_BODY

text \<open>
  The fields of a Body that \<^verbatim>\<open>SeparateX\<close> reads or writes: \<^verbatim>\<open>body.y\<close>,
  \<^verbatim>\<open>body.velocity.x\<close>, \<^verbatim>\<open>body.bounce.x\<close>, \<^verbatim>\<open>body.mass\<close>,
  \<^verbatim>\<open>body.physicsType\<close>, \<^verbatim>\<open>body.immovable\<close>, \<^verbatim>\<open>body.customSeparateX\<close>,
  \<^verbatim>\<open>body.embedded\<close>, \<^verbatim>\<open>body.rideable\<close>, \<^verbatim>\<open>body.moves\<close>,
  \<^verbatim>\<open>body.sleeping\<close> and \<^verbatim>\<open>body.minVelocity.x\<close>; with them \<^verbatim>\<open>body.x\<close>, which the
  function never names, the identity of the object, and the blocked state of its left and
  right faces (a flag and the body recorded as the blocker), which only the methods of the
  body touch.
\<close>

record body =
  ident :: nat
  body_x :: real
  body_y :: real
  velocity_x :: real
  bounce_x :: real
  mass :: real
  physicsType :: physics_type
  immovable :: bool
  customSeparateX :: bool
  embedded :: bool
  rideable :: bool
  moves :: bool
  sleeping :: bool
  minVelocity_x :: real
  blocked_left :: bool
  blocked_right :: bool
  blocker_left :: "nat option"
  blocker_right :: "nat option"

text \<open>The result of \<^verbatim>\<open>GetOverlapX\<close>, with the fields that \<^verbatim>\<open>SeparateX\<close> reads.\<close>

record collisionInfo =
  overlapY :: real
  face :: facing
  intersects :: bool
  share1 :: real
  share2 :: real

text \<open>
  What \<^verbatim>\<open>SeparateX\<close> calls and the sources do not contain: the probe
  \<^verbatim>\<open>GetOverlapX\<close> and the methods of \<^verbatim>\<open>Body\<close>. They are parameters of the
  embedding. A method takes the receiving body first; a method that mutates its receiver
  returns the updated receiver. Their types fix what the specification says of them: the
  probe is a measurement that returns its result, the queries \<^verbatim>\<open>movingX\<close>,
  \<^verbatim>\<open>isBlockedLeft\<close>, \<^verbatim>\<open>isBlockedRight\<close>, \<^verbatim>\<open>isBlockedX\<close> and \<^verbatim>\<open>getMoveX\<close>
  change no body, and \<^verbatim>\<open>setBlockedLeft\<close>, \<^verbatim>\<open>setBlockedRight\<close> and \<^verbatim>\<open>wake\<close>
  change only their receiver.
\<close>

record externals =
  GetOverlapX :: "body \<Rightarrow> body \<Rightarrow> bool \<Rightarrow> real \<Rightarrow> collisionInfo"
  movingX :: "body \<Rightarrow> bool"
  isBlockedLeft :: "body \<Rightarrow> bool"
  isBlockedRight :: "body \<Rightarrow> bool"
  isBlockedX :: "body \<Rightarrow> bool"
  setBlockedLeft :: "body \<Rightarrow> collisionInfo \<Rightarrow> body \<Rightarrow> body"
  setBlockedRight :: "body \<Rightarrow> collisionInfo \<Rightarrow> body \<Rightarrow> body"
  getMoveX :: "body \<Rightarrow> real \<Rightarrow> real"
  wake :: "body \<Rightarrow> body"

text \<open>
  The receiver of the call. \<^verbatim>\<open>SeparateX\<close> is exported as a plain function, so
  \<^verbatim>\<open>this\<close> is whatever the caller binds: \<^verbatim>\<open>undefined\<close> (a plain call in strict
  mode), or an object whose \<^verbatim>\<open>world\<close> property is a world or is \<^verbatim>\<open>undefined\<close>
  (the global object of a plain call in sloppy mode).
\<close>

record world =
  frame :: int

datatype receiver = Undefined | Object "world option"

datatype js_error = TypeError

text \<open>
  What a returning call leaves behind: the two bodies, the returned boolean and the lines
  written with \<^verbatim>\<open>console.log\<close>.
\<close>

record outcome =
  out1 :: body
  out2 :: body
  ret :: bool
  console :: "(int \<times> string) list"

subsection \<open>The function\<close>

text \<open>The expression \<^verbatim>\<open>this.world._frame\<close> of line 62: reading a property of
  \<^verbatim>\<open>undefined\<close> throws a TypeError.\<close>

definition this_world_frame :: "receiver \<Rightarrow> js_error + int" where
  "this_world_frame this =
     (case this of
        Undefined \<Rightarrow> Inl TypeError
      | Object None \<Rightarrow> Inl TypeError
      | Object (Some w) \<Rightarrow> Inr (frame w))"

text \<open>Lines 91 to 100: the velocities the two bodies exchange, \<^verbatim>\<open>bnx1\<close> and \<^verbatim>\<open>bnx2\<close>.\<close>

definition SeparateX_exchange :: "real \<Rightarrow> real \<Rightarrow> real \<Rightarrow> real \<Rightarrow> real \<times> real" where
  "SeparateX_exchange x1 x2 mass1 mass2 =
     (if mass1 = mass2
      then (\<bar>x2\<bar> * (if x2 > 0 then 1 else - 1), \<bar>x1\<bar> * (if x1 > 0 then 1 else - 1))
      else (sqrt ((x2 * x2 * mass2) / mass1) * (if x2 > 0 then 1 else - 1),
            sqrt ((x1 * x1 * mass1) / mass2) * (if x1 > 0 then 1 else - 1)))"

text \<open>Lines 69 to 173: the new velocities \<^verbatim>\<open>nx1\<close> and \<^verbatim>\<open>nx2\<close> of the impact.\<close>

definition SeparateX_impact :: "externals \<Rightarrow> bool \<Rightarrow> body \<Rightarrow> body \<Rightarrow> real \<times> real" where
  "SeparateX_impact E leftFace body1 body2 =
     (let x1 = velocity_x body1;
          x2 = velocity_x body2;
          moving1 = movingX E body1;
          moving2 = movingX E body2
      in if moving1 \<and> moving2 then
           (case SeparateX_exchange x1 x2 (mass body1) (mass body2) of
              (bnx1, bnx2) \<Rightarrow>
                (let avg = (bnx1 + bnx2) * 0.5;
                     nv1 = bnx1 - avg;
                     nv2 = bnx2 - avg
                 in (avg + nv1 * bounce_x body1, avg + nv2 * bounce_x body2)))
         else if \<not> moving1 \<and> moving2 then
           (x1, if rideable body1 then (if leftFace then 1 else - 1)
                else x1 - x2 * bounce_x body2)
         else if moving1 \<and> \<not> moving2 then
           (if rideable body2 then (if leftFace then 1 else - 1)
            else x2 - x1 * bounce_x body1, x2)
         else (0, 0))"

text \<open>Lines 189 to 202, for one body: a small velocity that changed sign is zeroed.\<close>

definition SeparateX_flip :: "body \<Rightarrow> real \<Rightarrow> real \<Rightarrow> real" where
  "SeparateX_flip b x nx =
     (let flip = (x < 0 \<and> nx > 0) \<or> (x > 0 \<and> nx < 0)
      in if \<not> sleeping b \<and> flip \<and> \<bar>nx\<bar> < minVelocity_x b then 0 else nx)"

text \<open>
  Lines 207 to 282: position and blocked state of \<^verbatim>\<open>body1\<close>. The source adds the
  move to \<^verbatim>\<open>body1.y\<close>; the condition of line 242 is read with JavaScript's precedence,
  \<^verbatim>\<open>&&\<close> before \<^verbatim>\<open>||\<close>; both faces of the stationary case test
  \<^verbatim>\<open>body1.isBlockedRight()\<close>.
\<close>

definition SeparateX_body1 ::
  "externals \<Rightarrow> collisionInfo \<Rightarrow> body \<Rightarrow> body \<Rightarrow> real \<Rightarrow> body \<times> real" where
  "SeparateX_body1 E ci body1 body2 nx1 =
     (let leftFace = (face ci = FACING_LEFT);
          rightFace = (\<not> leftFace);
          totalA = share1 ci
      in if nx1 \<noteq> 0 then
           (let b =
                (if leftFace then
                   (if isBlockedLeft E body2 then setBlockedLeft E body1 ci body2
                    else body1\<lparr>body_y := body_y body1 + getMoveX E body1 totalA\<rparr>)
                 else if rightFace then
                   (if isBlockedRight E body2 then setBlockedRight E body1 ci body2
                    else body1\<lparr>body_y := body_y body1 + getMoveX E body1 totalA\<rparr>)
                 else body1)
            in (b, if (sleeping b \<and> (nx1 < 0 \<and> isBlockedLeft E b))
                      \<or> (nx1 > 0 \<and> isBlockedRight E b)
                   then 0 else nx1))
         else if moves body1 then
           (if leftFace then
              (let b = (if totalA \<noteq> 0 \<and> \<not> isBlockedRight E body1
                        then body1\<lparr>body_y := body_y body1 + getMoveX E body1 totalA\<rparr>
                        else body1)
               in (if isBlockedLeft E body2 then setBlockedLeft E b ci body2 else b, nx1))
            else if rightFace then
              (let b = (if totalA \<noteq> 0 \<and> \<not> isBlockedRight E body1
                        then body1\<lparr>body_y := body_y body1 + getMoveX E body1 totalA\<rparr>
                        else body1)
               in (if isBlockedRight E body2 then setBlockedRight E b ci body2 else b, nx1))
            else (body1, nx1))
         else (body1, nx1))"

text \<open>
  Lines 284 to 358: position and blocked state of \<^verbatim>\<open>body2\<close>; \<^verbatim>\<open>body1\<close> is the
  first body as the preceding step left it.
\<close>

definition SeparateX_body2 ::
  "externals \<Rightarrow> collisionInfo \<Rightarrow> body \<Rightarrow> body \<Rightarrow> real \<Rightarrow> body \<times> real" where
  "SeparateX_body2 E ci body1 body2 nx2 =
     (let leftFace = (face ci = FACING_LEFT);
          rightFace = (\<not> leftFace);
          totalB = share2 ci
      in if nx2 \<noteq> 0 then
           (let b =
                (if leftFace then
                   (if isBlockedRight E body1 then setBlockedRight E body2 ci body1
                    else body2\<lparr>body_y := body_y body2 + getMoveX E body2 totalB\<rparr>)
                 else if rightFace then
                   (if isBlockedLeft E body1 then setBlockedLeft E body2 ci body1
                    else body2\<lparr>body_y := body_y body2 + getMoveX E body2 totalB\<rparr>)
                 else body2)
            in (b, if (sleeping b \<and> (nx2 < 0 \<and> isBlockedLeft E b))
                      \<or> (nx2 > 0 \<and> isBlockedRight E b)
                   then 0 else nx2))
         else if moves body2 then
           (if leftFace then
              (let b = (if totalB \<noteq> 0 \<and> \<not> isBlockedRight E body2
                        then body2\<lparr>body_y := body_y body2 + getMoveX E body2 totalB\<rparr>
                        else body2)
               in (if isBlockedRight E body1 then setBlockedRight E b ci body1 else b, nx2))
            else if rightFace then
              (let b = (if totalB \<noteq> 0 \<and> \<not> isBlockedLeft E body2
                        then body2\<lparr>body_y := body_y body2 + getMoveX E body2 totalB\<rparr>
                        else body2)
               in (if isBlockedLeft E body1 then setBlockedLeft E b ci body1 else b, nx2))
            else (body2, nx2))
         else (body2, nx2))"

text \<open>Lines 362 to 370, for one body.\<close>

definition SeparateX_blocked :: "externals \<Rightarrow> body \<Rightarrow> real \<Rightarrow> real" where
  "SeparateX_blocked E b nx = (if isBlockedX E b then 0 else nx)"

text \<open>
  Lines 188 to 370: everything between the test of the shares and the test of
  \<^verbatim>\<open>sleeping\<close>. The result is each body with its new velocity, \<^verbatim>\<open>nx1\<close> and
  \<^verbatim>\<open>nx2\<close>, as line 374 finds them.
\<close>

definition SeparateX_separate ::
  "externals \<Rightarrow> collisionInfo \<Rightarrow> body \<Rightarrow> body \<Rightarrow> real \<Rightarrow> real \<Rightarrow> (body \<times> real) \<times> (body \<times> real)" where
  "SeparateX_separate E ci body1 body2 nx1 nx2 =
     (let nx1 = SeparateX_flip body1 (velocity_x body1) nx1;
          nx2 = SeparateX_flip body2 (velocity_x body2) nx2
      in case SeparateX_body1 E ci body1 body2 nx1 of
           (body1, nx1) \<Rightarrow>
             (case SeparateX_body2 E ci body1 body2 nx2 of
                (body2, nx2) \<Rightarrow>
                  ((body1, SeparateX_blocked E body1 nx1),
                   (body2, SeparateX_blocked E body2 nx2))))"

text \<open>Lines 374 to 386 for \<^verbatim>\<open>body1\<close> and 388 to 400 for \<^verbatim>\<open>body2\<close>: the body and
  its new velocity after the test of \<^verbatim>\<open>sleeping\<close>.\<close>

definition SeparateX_wake :: "externals \<Rightarrow> body \<Rightarrow> real \<Rightarrow> body \<times> real" where
  "SeparateX_wake E b nx =
     (if sleeping b
      then (if \<bar>nx\<bar> < minVelocity_x b then (b, 0) else (wake E b, nx))
      else (b, nx))"

text \<open>
  The condition of line 60 under which the call returns early.
\<close>

definition SeparateX_aborts :: "collisionInfo \<Rightarrow> body \<Rightarrow> body \<Rightarrow> bool \<Rightarrow> bool" where
  "SeparateX_aborts ci body1 body2 overlapOnly =
     (let body1Immovable = (physicsType body1 = STATIC_BODY \<or> immovable body1);
          body2Immovable = (physicsType body2 = STATIC_BODY \<or> immovable body2)
      in \<not> intersects ci \<or> overlapOnly \<or> (body1Immovable \<and> body2Immovable)
         \<or> customSeparateX body1 \<or> customSeparateX body2)"

definition SeparateX ::
  "externals \<Rightarrow> receiver \<Rightarrow> body \<Rightarrow> body \<Rightarrow> bool \<Rightarrow> real \<Rightarrow> js_error + outcome" where
  "SeparateX E this body1 body2 overlapOnly bias =
     (let collisionInfo = GetOverlapX E body1 body2 overlapOnly bias;
          overlap = overlapY collisionInfo;
          leftFace = (face collisionInfo = FACING_LEFT)
      in if SeparateX_aborts collisionInfo body1 body2 overlapOnly then
           (case this_world_frame this of
              Inl e \<Rightarrow> Inl e
            | Inr f \<Rightarrow>
                Inr \<lparr>out1 = body1, out2 = body2,
                     ret = ((intersects collisionInfo \<and> overlap \<noteq> 0)
                            \<or> (embedded body1 \<and> embedded body2)),
                     console = [(f, ''SeparateX aborted'')]\<rparr>)
         else
           (case SeparateX_impact E leftFace body1 body2 of
              (nx1, nx2) \<Rightarrow>
                (let totalA = share1 collisionInfo;
                     totalB = share2 collisionInfo
                 in if totalA = 0 \<and> totalB = 0 \<and> overlap \<noteq> 0 then
                      Inr \<lparr>out1 = body1\<lparr>velocity_x := 0\<rparr>, out2 = body2\<lparr>velocity_x := 0\<rparr>,
                           ret = True, console = []\<rparr>
                    else
                      (case SeparateX_separate E collisionInfo body1 body2 nx1 nx2 of
                         ((body1, nx1), (body2, nx2)) \<Rightarrow>
                           (case SeparateX_wake E body1 nx1 of
                              (body1, nx1) \<Rightarrow>
                                (case SeparateX_wake E body2 nx2 of
                                   (body2, nx2) \<Rightarrow>
                                     Inr \<lparr>out1 = body1\<lparr>velocity_x := nx1\<rparr>,
                                          out2 = body2\<lparr>velocity_x := nx2\<rparr>,
                                          ret = True, console = []\<rparr>))))))"

subsection \<open>The collaborators, from the specification\<close>

text \<open>
  \<^verbatim>\<open>Body.js\<close> and \<^verbatim>\<open>GetOverlapX.js\<close> are not among the sources. The definitions of
  this subsection follow the specification's data model; they are the concrete collaborators
  at which the theorems below, stated for every collaborator, are instantiated.
\<close>

text \<open>
  Modelled from the spec: \<^verbatim>\<open>Body.movingX\<close> is missing; the moving predicate is
  "nonzero velocity component and not currently blocked in that direction".
\<close>

definition Body_movingX :: "body \<Rightarrow> bool" where
  "Body_movingX b =
     (velocity_x b \<noteq> 0
      \<and> \<not> (velocity_x b < 0 \<and> blocked_left b)
      \<and> \<not> (velocity_x b > 0 \<and> blocked_right b))"

text \<open>
  Modelled from the spec: \<^verbatim>\<open>Body.setBlockedLeft\<close> is missing; it marks the body
  blocked on that face, "recording the blocking body".
\<close>

definition Body_setBlockedLeft :: "body \<Rightarrow> collisionInfo \<Rightarrow> body \<Rightarrow> body" where
  "Body_setBlockedLeft b ci other = b\<lparr>blocked_left := True, blocker_left := Some (ident other)\<rparr>"

text \<open>
  Modelled from the spec: \<^verbatim>\<open>Body.setBlockedRight\<close> is missing; as for the left face.
\<close>

definition Body_setBlockedRight :: "body \<Rightarrow> collisionInfo \<Rightarrow> body \<Rightarrow> body" where
  "Body_setBlockedRight b ci other = b\<lparr>blocked_right := True, blocker_right := Some (ident other)\<rparr>"

text \<open>
  Modelled from the spec: \<^verbatim>\<open>Body.isBlockedX\<close> is missing; a velocity is discarded when
  its body is "flagged blocked in that direction". The method takes no argument, so the
  direction is that of the velocity the body holds, as in the moving predicate: the body is
  blocked on the left while its velocity points left, or on the right while it points right.
\<close>

definition Body_isBlockedX :: "body \<Rightarrow> bool" where
  "Body_isBlockedX b =
     ((velocity_x b < 0 \<and> blocked_left b) \<or> (velocity_x b > 0 \<and> blocked_right b))"

text \<open>
  Modelled from the spec: \<^verbatim>\<open>Body.getMoveX\<close> is missing; a body is translated "by its
  apportioned share of the overlap", so the move is the share itself.
\<close>

definition Body_getMoveX :: "body \<Rightarrow> real \<Rightarrow> real" where
  "Body_getMoveX b amount = amount"

text \<open>
  Modelled from the spec: \<^verbatim>\<open>Body.wake\<close> is missing; the wake operation ends the
  sleep of the body.
\<close>

definition Body_wake :: "body \<Rightarrow> body" where
  "Body_wake b = b\<lparr>sleeping := False\<rparr>"

text \<open>
  Modelled from the spec: \<^verbatim>\<open>GetOverlapX\<close> and the class \<^verbatim>\<open>Body\<close> are missing. The
  probe is a measurement that returns a CollisionInfo, and \<^verbatim>\<open>Body.isBlockedLeft\<close> and
  \<^verbatim>\<open>Body.isBlockedRight\<close> are the per-face blocked queries. \<open>Arcade ci\<close> is the
  environment whose probe reports \<open>ci\<close> and whose bodies have the methods above.
\<close>

definition Arcade :: "collisionInfo \<Rightarrow> externals" where
  "Arcade ci =
     \<lparr>GetOverlapX = (\<lambda>body1 body2 overlapOnly bias. ci),
      movingX = Body_movingX,
      isBlockedLeft = blocked_left,
      isBlockedRight = blocked_right,
      isBlockedX = Body_isBlockedX,
      setBlockedLeft = Body_setBlockedLeft,
      setBlockedRight = Body_setBlockedRight,
      getMoveX = Body_getMoveX,
      wake = Body_wake\<rparr>"

subsection \<open>Sample bodies and probe results\<close>

text \<open>A dynamic body at rest at the origin, of mass 1, awake and blocked on no face.\<close>

definition dynamicBody :: body where
  "dynamicBody =
     \<lparr>ident = 1, body_x = 0, body_y = 0, velocity_x = 0, bounce_x = 0, mass = 1,
      physicsType = DYNAMIC_BODY, immovable = False, customSeparateX = False,
      embedded = False, rideable = False, moves = True, sleeping = False,
      minVelocity_x = 0, blocked_left = False, blocked_right = False,
      blocker_left = None, blocker_right = None\<rparr>"

text \<open>A static body at rest, 30 to the left of the origin.\<close>

definition staticBody :: body where
  "staticBody = dynamicBody\<lparr>ident := 2, body_x := - 30, physicsType := STATIC_BODY, moves := False\<rparr>"

text \<open>The probe found nothing.\<close>

definition miss :: collisionInfo where
  "miss = \<lparr>overlapY = 0, face = FACING_NONE, intersects = False, share1 = 0, share2 = 0\<rparr>"

text \<open>The probe found an overlap of 4 on the given face, apportioned as given.\<close>

definition hit :: "facing \<Rightarrow> real \<Rightarrow> real \<Rightarrow> collisionInfo" where
  "hit f a b = \<lparr>overlapY = 4, face = f, intersects = True, share1 = a, share2 = b\<rparr>"

section \<open>Properties\<close>

subsection \<open>The velocity a call stores\<close>

text \<open>
  Lines 242 and 319: the velocity a body leaves its position correction with, in terms of
  the body \<open>c\<close> as the correction leaves it.
\<close>

lemma SeparateX_body1_snd:
  assumes "SeparateX_body1 E ci b1 b2 n = (c, m)"
  shows "m = (if (sleeping c \<and> n < 0 \<and> isBlockedLeft E c) \<or> (n > 0 \<and> isBlockedRight E c)
              then 0 else n)"
proof (cases "n = 0")
  case True
  then show ?thesis using assms by (auto simp add: SeparateX_body1_def Let_def split: if_splits)
next
  case False
  then show ?thesis using assms by (auto simp add: SeparateX_body1_def Let_def)
qed

lemma SeparateX_body2_snd:
  assumes "SeparateX_body2 E ci b1 b2 n = (c, m)"
  shows "m = (if (sleeping c \<and> n < 0 \<and> isBlockedLeft E c) \<or> (n > 0 \<and> isBlockedRight E c)
              then 0 else n)"
proof (cases "n = 0")
  case True
  then show ?thesis using assms by (auto simp add: SeparateX_body2_def Let_def split: if_splits)
next
  case False
  then show ?thesis using assms by (auto simp add: SeparateX_body2_def Let_def)
qed

text \<open>Lines 362 to 400, for one body.\<close>

lemma SeparateX_wake_blocked:
  "snd (SeparateX_wake E c (SeparateX_blocked E c m)) =
     (if isBlockedX E c \<or> (sleeping c \<and> \<bar>m\<bar> < minVelocity_x c) then 0 else m)"
  by (simp add: SeparateX_wake_def SeparateX_blocked_def)

lemma SeparateX_body_stored:
  assumes "m = (if (sleeping c \<and> f < 0 \<and> isBlockedLeft E c) \<or> (f > 0 \<and> isBlockedRight E c)
                then 0 else f)"
    and "f = (if d then 0 else n)"
  shows "snd (SeparateX_wake E c (SeparateX_blocked E c m)) =
           (if d \<or> (sleeping c \<and> n < 0 \<and> isBlockedLeft E c) \<or> (n > 0 \<and> isBlockedRight E c)
               \<or> isBlockedX E c \<or> (sleeping c \<and> \<bar>n\<bar> < minVelocity_x c)
            then 0 else n)"
  unfolding SeparateX_wake_blocked assms by (cases d) auto

text \<open>
  A call that does not return early returns normally, and the velocity it stores in a body
  is the velocity \<open>n\<close> of the impact unless one of the later steps zeroes it: the
  degenerate contact of line 180, the damping of lines 192 and 198, the obstruction of
  lines 242 and 319, \<^verbatim>\<open>isBlockedX\<close> of lines 362 and 367, or the sleep threshold of
  lines 376 and 390. Here \<open>c1\<close> and \<open>c2\<close> are the bodies as their position correction
  leaves them, and \<open>b1\<close> is the first body as the second body's step finds it.
\<close>

lemma SeparateX_stored:
  assumes "\<not> SeparateX_aborts (GetOverlapX E body1 body2 overlapOnly bias) body1 body2 overlapOnly"
  shows "(let ci = GetOverlapX E body1 body2 overlapOnly bias;
              impact = SeparateX_impact E (face ci = FACING_LEFT) body1 body2;
              n1 = fst impact;
              n2 = snd impact;
              x1 = velocity_x body1;
              x2 = velocity_x body2;
              degenerate = (share1 ci = 0 \<and> share2 ci = 0 \<and> overlapY ci \<noteq> 0);
              damped1 = (\<not> sleeping body1 \<and> ((x1 < 0 \<and> n1 > 0) \<or> (x1 > 0 \<and> n1 < 0))
                         \<and> \<bar>n1\<bar> < minVelocity_x body1);
              damped2 = (\<not> sleeping body2 \<and> ((x2 < 0 \<and> n2 > 0) \<or> (x2 > 0 \<and> n2 < 0))
                         \<and> \<bar>n2\<bar> < minVelocity_x body2);
              c1 = fst (SeparateX_body1 E ci body1 body2 n1);
              b1 = fst (SeparateX_body1 E ci body1 body2 (if damped1 then 0 else n1));
              c2 = fst (SeparateX_body2 E ci b1 body2 n2);
              zeroed1 = (degenerate \<or> damped1
                         \<or> (sleeping c1 \<and> n1 < 0 \<and> isBlockedLeft E c1)
                         \<or> (n1 > 0 \<and> isBlockedRight E c1)
                         \<or> isBlockedX E c1
                         \<or> (sleeping c1 \<and> \<bar>n1\<bar> < minVelocity_x c1));
              zeroed2 = (degenerate \<or> damped2
                         \<or> (sleeping c2 \<and> n2 < 0 \<and> isBlockedLeft E c2)
                         \<or> (n2 > 0 \<and> isBlockedRight E c2)
                         \<or> isBlockedX E c2
                         \<or> (sleeping c2 \<and> \<bar>n2\<bar> < minVelocity_x c2))
          in \<exists>r. SeparateX E this body1 body2 overlapOnly bias = Inr r
               \<and> velocity_x (out1 r) = (if zeroed1 then 0 else n1)
               \<and> velocity_x (out2 r) = (if zeroed2 then 0 else n2))"
proof -
  let ?ci = "GetOverlapX E body1 body2 overlapOnly bias"
  let ?deg = "share1 ?ci = 0 \<and> share2 ?ci = 0 \<and> overlapY ?ci \<noteq> 0"
  obtain n1 n2 where imp: "SeparateX_impact E (face ?ci = FACING_LEFT) body1 body2 = (n1, n2)"
    by (cases "SeparateX_impact E (face ?ci = FACING_LEFT) body1 body2")
  define d1 where "d1 \<longleftrightarrow> \<not> sleeping body1
      \<and> ((velocity_x body1 < 0 \<and> n1 > 0) \<or> (velocity_x body1 > 0 \<and> n1 < 0))
      \<and> \<bar>n1\<bar> < minVelocity_x body1"
  define d2 where "d2 \<longleftrightarrow> \<not> sleeping body2
      \<and> ((velocity_x body2 < 0 \<and> n2 > 0) \<or> (velocity_x body2 > 0 \<and> n2 < 0))
      \<and> \<bar>n2\<bar> < minVelocity_x body2"
  define f1 where "f1 = (if d1 then 0 else n1)"
  define f2 where "f2 = (if d2 then 0 else n2)"
  have fl1: "SeparateX_flip body1 (velocity_x body1) n1 = f1"
    by (simp add: SeparateX_flip_def Let_def f1_def d1_def)
  have fl2: "SeparateX_flip body2 (velocity_x body2) n2 = f2"
    by (simp add: SeparateX_flip_def Let_def f2_def d2_def)
  obtain b1 m1 where s1: "SeparateX_body1 E ?ci body1 body2 f1 = (b1, m1)"
    by (cases "SeparateX_body1 E ?ci body1 body2 f1")
  obtain b2 m2 where s2: "SeparateX_body2 E ?ci b1 body2 f2 = (b2, m2)"
    by (cases "SeparateX_body2 E ?ci b1 body2 f2")
  define k1 where "k1 = snd (SeparateX_wake E b1 (SeparateX_blocked E b1 m1))"
  define k2 where "k2 = snd (SeparateX_wake E b2 (SeparateX_blocked E b2 m2))"
  have k1: "k1 = (if d1 \<or> (sleeping b1 \<and> n1 < 0 \<and> isBlockedLeft E b1)
                    \<or> (n1 > 0 \<and> isBlockedRight E b1) \<or> isBlockedX E b1
                    \<or> (sleeping b1 \<and> \<bar>n1\<bar> < minVelocity_x b1) then 0 else n1)"
    unfolding k1_def by (rule SeparateX_body_stored[OF SeparateX_body1_snd[OF s1] f1_def])
  have k2: "k2 = (if d2 \<or> (sleeping b2 \<and> n2 < 0 \<and> isBlockedLeft E b2)
                    \<or> (n2 > 0 \<and> isBlockedRight E b2) \<or> isBlockedX E b2
                    \<or> (sleeping b2 \<and> \<bar>n2\<bar> < minVelocity_x b2) then 0 else n2)"
    unfolding k2_def by (rule SeparateX_body_stored[OF SeparateX_body2_snd[OF s2] f2_def])
  have sep: "SeparateX_separate E ?ci body1 body2 n1 n2
               = ((b1, SeparateX_blocked E b1 m1), (b2, SeparateX_blocked E b2 m2))"
    by (simp add: SeparateX_separate_def Let_def fl1 fl2 s1 s2)
  have run: "\<exists>r. SeparateX E this body1 body2 overlapOnly bias = Inr r
               \<and> velocity_x (out1 r) = (if ?deg then 0 else k1)
               \<and> velocity_x (out2 r) = (if ?deg then 0 else k2)"
    using assms by (auto simp add: SeparateX_def Let_def imp sep k1_def k2_def split: prod.splits)
  have c1: "fst (SeparateX_body1 E ?ci body1 body2 n1) = b1" if "\<not> d1"
    using that s1 by (simp add: f1_def)
  have c2: "fst (SeparateX_body2 E ?ci b1 body2 n2) = b2" if "\<not> d2"
    using that s2 by (simp add: f2_def)
  have b1: "fst (SeparateX_body1 E ?ci body1 body2 (if d1 then 0 else n1)) = b1"
    using s1 by (simp add: f1_def)
  have v1: "(if ?deg then 0 else k1) =
        (if ?deg \<or> d1
            \<or> (sleeping (fst (SeparateX_body1 E ?ci body1 body2 n1)) \<and> n1 < 0
                 \<and> isBlockedLeft E (fst (SeparateX_body1 E ?ci body1 body2 n1)))
            \<or> (n1 > 0 \<and> isBlockedRight E (fst (SeparateX_body1 E ?ci body1 body2 n1)))
            \<or> isBlockedX E (fst (SeparateX_body1 E ?ci body1 body2 n1))
            \<or> (sleeping (fst (SeparateX_body1 E ?ci body1 body2 n1))
                 \<and> \<bar>n1\<bar> < minVelocity_x (fst (SeparateX_body1 E ?ci body1 body2 n1)))
         then 0 else n1)"
  proof (cases d1)
    case True then show ?thesis by (simp add: k1)
  next
    case False then show ?thesis unfolding c1[OF False] k1 by simp
  qed
  have v2: "(if ?deg then 0 else k2) =
        (if ?deg \<or> d2
            \<or> (sleeping (fst (SeparateX_body2 E ?ci b1 body2 n2)) \<and> n2 < 0
                 \<and> isBlockedLeft E (fst (SeparateX_body2 E ?ci b1 body2 n2)))
            \<or> (n2 > 0 \<and> isBlockedRight E (fst (SeparateX_body2 E ?ci b1 body2 n2)))
            \<or> isBlockedX E (fst (SeparateX_body2 E ?ci b1 body2 n2))
            \<or> (sleeping (fst (SeparateX_body2 E ?ci b1 body2 n2))
                 \<and> \<bar>n2\<bar> < minVelocity_x (fst (SeparateX_body2 E ?ci b1 body2 n2)))
         then 0 else n2)"
  proof (cases d2)
    case True then show ?thesis by (simp add: k2)
  next
    case False then show ?thesis unfolding c2[OF False] k2 by simp
  qed
  show ?thesis
    unfolding Let_def imp fst_conv snd_conv
    unfolding d1_def[symmetric] d2_def[symmetric] b1
    using run unfolding v1 v2 .
qed

subsection \<open>Degenerate contact\<close>

text \<open>
  C8: a call that does not return early, with a nonzero overlap and both shares zero, stores
  0 in the X velocity of both bodies and returns true; nothing else of either body changes
  (position, blocked faces and the sleeping flag among the rest), and nothing is logged.
\<close>

theorem SeparateX_degenerate_contact:
  assumes "\<not> SeparateX_aborts (GetOverlapX E body1 body2 overlapOnly bias) body1 body2 overlapOnly"
    and "overlapY (GetOverlapX E body1 body2 overlapOnly bias) \<noteq> 0"
    and "share1 (GetOverlapX E body1 body2 overlapOnly bias) = 0"
    and "share2 (GetOverlapX E body1 body2 overlapOnly bias) = 0"
  shows "SeparateX E this body1 body2 overlapOnly bias =
           Inr \<lparr>out1 = body1\<lparr>velocity_x := 0\<rparr>, out2 = body2\<lparr>velocity_x := 0\<rparr>,
                ret = True, console = []\<rparr>"
  using assms by (simp add: SeparateX_def Let_def split: prod.splits)

theorem SeparateX_degenerate_contact_witness:
  "SeparateX (Arcade (hit FACING_LEFT 0 0)) Undefined
       (dynamicBody\<lparr>velocity_x := - 3\<rparr>) (dynamicBody\<lparr>ident := 3, velocity_x := 5\<rparr>) False 0 =
     Inr \<lparr>out1 = dynamicBody\<lparr>velocity_x := 0\<rparr>, out2 = dynamicBody\<lparr>ident := 3, velocity_x := 0\<rparr>,
          ret = True, console = []\<rparr>"
  using SeparateX_degenerate_contact[of "Arcade (hit FACING_LEFT 0 0)"
      "dynamicBody\<lparr>velocity_x := - 3\<rparr>" "dynamicBody\<lparr>ident := 3, velocity_x := 5\<rparr>" False 0 Undefined]
  by (simp add: Arcade_def hit_def SeparateX_aborts_def dynamicBody_def)

subsection \<open>The early return reads the receiver\<close>

text \<open>
  C10: on every path that returns early (the probe reports no intersection, or overlapOnly is
  set, or both bodies are immovable, or either body has customSeparateX) the call evaluates
  \<^verbatim>\<open>this.world._frame\<close> before it returns: with a receiver that has a world, the frame
  is what the call logs; with no receiver, or one that has no world, the call throws a
  TypeError and returns no boolean.
\<close>

theorem SeparateX_abort_reads_frame:
  assumes "\<not> intersects (GetOverlapX E body1 body2 overlapOnly bias) \<or> overlapOnly
           \<or> ((physicsType body1 = STATIC_BODY \<or> immovable body1)
               \<and> (physicsType body2 = STATIC_BODY \<or> immovable body2))
           \<or> customSeparateX body1 \<or> customSeparateX body2"
  shows "(\<forall>w. this = Object (Some w) \<longrightarrow>
            (\<exists>r. SeparateX E this body1 body2 overlapOnly bias = Inr r
                 \<and> console r = [(frame w, ''SeparateX aborted'')]))
         \<and> (this = Undefined \<or> this = Object None \<longrightarrow>
              SeparateX E this body1 body2 overlapOnly bias = Inl TypeError)"
  using assms
  by (auto simp add: SeparateX_def SeparateX_aborts_def this_world_frame_def Let_def)

theorem SeparateX_abort_reads_frame_witness:
  "SeparateX (Arcade miss) Undefined dynamicBody staticBody False 0 = Inl TypeError
   \<and> (\<exists>r. SeparateX (Arcade miss) (Object (Some \<lparr>frame = 7\<rparr>)) dynamicBody staticBody False 0 = Inr r
          \<and> console r = [(7, ''SeparateX aborted'')])"
  using SeparateX_abort_reads_frame[of "Arcade miss" dynamicBody staticBody False 0 Undefined]
    SeparateX_abort_reads_frame[of "Arcade miss" dynamicBody staticBody False 0
      "Object (Some \<lparr>frame = 7\<rparr>)"]
  by (simp add: Arcade_def miss_def)

text \<open>
  C2: what a call does when the probe reports no intersection, or overlapOnly is true, or
  both bodies are immovable, or either body has opted out. With a receiver that has a world
  the call changes neither body and returns true exactly when the probe reports an
  intersection with nonzero overlap or both bodies are embedded. With any other receiver,
  the plain call of the exported function among them, it throws instead: no boolean is
  returned.
\<close>

theorem SeparateX_abort_outcome:
  assumes "\<not> intersects (GetOverlapX E body1 body2 overlapOnly bias) \<or> overlapOnly
           \<or> ((physicsType body1 = STATIC_BODY \<or> immovable body1)
               \<and> (physicsType body2 = STATIC_BODY \<or> immovable body2))
           \<or> customSeparateX body1 \<or> customSeparateX body2"
  shows "SeparateX E this body1 body2 overlapOnly bias =
           (case this of
              Object (Some w) \<Rightarrow>
                Inr \<lparr>out1 = body1, out2 = body2,
                     ret = ((intersects (GetOverlapX E body1 body2 overlapOnly bias)
                             \<and> overlapY (GetOverlapX E body1 body2 overlapOnly bias) \<noteq> 0)
                            \<or> (embedded body1 \<and> embedded body2)),
                     console = [(frame w, ''SeparateX aborted'')]\<rparr>
            | _ \<Rightarrow> Inl TypeError)"
  using assms
  by (auto simp add: SeparateX_def SeparateX_aborts_def this_world_frame_def Let_def
      split: receiver.splits option.splits)

text \<open>
  The plain call \<^verbatim>\<open>SeparateX(body1, body2, true, 0)\<close> on two bodies that overlap by 4:
  the documented result is true, the call throws. Bound to a receiver with a world it
  returns true.
\<close>

theorem SeparateX_abort_outcome_witness:
  "SeparateX (Arcade (hit FACING_LEFT 4 0)) Undefined
       (dynamicBody\<lparr>velocity_x := - 5\<rparr>) staticBody True 0 = Inl TypeError
   \<and> SeparateX (Arcade (hit FACING_LEFT 4 0)) (Object (Some \<lparr>frame = 7\<rparr>))
       (dynamicBody\<lparr>velocity_x := - 5\<rparr>) staticBody True 0 =
     Inr \<lparr>out1 = dynamicBody\<lparr>velocity_x := - 5\<rparr>, out2 = staticBody, ret = True,
          console = [(7, ''SeparateX aborted'')]\<rparr>"
  using SeparateX_abort_outcome[of "Arcade (hit FACING_LEFT 4 0)"
      "dynamicBody\<lparr>velocity_x := - 5\<rparr>" staticBody True 0 Undefined]
    SeparateX_abort_outcome[of "Arcade (hit FACING_LEFT 4 0)"
      "dynamicBody\<lparr>velocity_x := - 5\<rparr>" staticBody True 0 "Object (Some \<lparr>frame = 7\<rparr>)"]
  by (simp add: Arcade_def hit_def)

text \<open>
  C7 as stated, "when the probe reports intersects = false the call returns false", fails:
  two embedded bodies that do not intersect make the call return true, by the second
  disjunct of line 65.
\<close>

theorem SeparateX_no_intersection_embedded:
  "\<not> intersects (GetOverlapX (Arcade miss)
         (dynamicBody\<lparr>embedded := True\<rparr>) (staticBody\<lparr>embedded := True\<rparr>) False 0)
   \<and> SeparateX (Arcade miss) (Object (Some \<lparr>frame = 7\<rparr>))
        (dynamicBody\<lparr>embedded := True\<rparr>) (staticBody\<lparr>embedded := True\<rparr>) False 0 =
      Inr \<lparr>out1 = dynamicBody\<lparr>embedded := True\<rparr>, out2 = staticBody\<lparr>embedded := True\<rparr>,
           ret = True, console = [(7, ''SeparateX aborted'')]\<rparr>"
  by (simp add: SeparateX_def SeparateX_aborts_def this_world_frame_def Arcade_def miss_def)

text \<open>
  C7, amended: when the probe reports intersects = false and the receiver has a world, the
  call returns true exactly when both bodies are marked embedded, and false otherwise; it
  changes neither body, so neither velocity nor position changes.
\<close>

theorem SeparateX_no_intersection:
  assumes "\<not> intersects (GetOverlapX E body1 body2 overlapOnly bias)"
    and "this = Object (Some w)"
  shows "SeparateX E this body1 body2 overlapOnly bias =
           Inr \<lparr>out1 = body1, out2 = body2, ret = (embedded body1 \<and> embedded body2),
                console = [(frame w, ''SeparateX aborted'')]\<rparr>"
  using assms by (simp add: SeparateX_def SeparateX_aborts_def this_world_frame_def Let_def)

theorem SeparateX_no_intersection_witness:
  "SeparateX (Arcade miss) (Object (Some \<lparr>frame = 7\<rparr>))
       (dynamicBody\<lparr>velocity_x := 3\<rparr>) staticBody False 0 =
     Inr \<lparr>out1 = dynamicBody\<lparr>velocity_x := 3\<rparr>, out2 = staticBody,
          ret = False, console = [(7, ''SeparateX aborted'')]\<rparr>"
  using SeparateX_no_intersection[of "Arcade miss" "dynamicBody\<lparr>velocity_x := 3\<rparr>" staticBody
      False 0 "Object (Some \<lparr>frame = 7\<rparr>)" "\<lparr>frame = 7\<rparr>"]
  by (simp add: Arcade_def miss_def dynamicBody_def staticBody_def)

subsection \<open>The velocities of the impact\<close>

lemma sqrt_36: "sqrt 36 = 6"
  using real_sqrt_abs[of 6] by simp

text \<open>
  C4: when both bodies satisfy the moving predicate (and the masses are positive), the
  velocity exchanged to body i is \<open>sqrt (v\<^sub>j\<^sup>2 \<cdot> mass\<^sub>j / mass\<^sub>i) \<cdot> sgn v\<^sub>j\<close>, j being
  the other body; with equal masses it is computed as the magnitude of the other body's
  velocity carrying the other's sign, which is the same value; and the velocity of each body
  resolved by the impact, before damping and blocking, is
  \<open>avg + (exchanged\<^sub>i - avg) \<cdot> bounce\<^sub>i\<close>, avg being the mean of the two exchanged
  velocities.
\<close>

theorem SeparateX_impact_both_moving:
  assumes "movingX E body1" and "movingX E body2"
    and "0 < mass body1" and "0 < mass body2"
  shows "(let v1 = velocity_x body1; v2 = velocity_x body2;
              m1 = mass body1; m2 = mass body2;
              e1 = fst (SeparateX_exchange v1 v2 m1 m2);
              e2 = snd (SeparateX_exchange v1 v2 m1 m2);
              avg = (e1 + e2) / 2
          in e1 = sqrt (v2\<^sup>2 * m2 / m1) * sgn v2
           \<and> e2 = sqrt (v1\<^sup>2 * m1 / m2) * sgn v1
           \<and> (m1 = m2 \<longrightarrow> e1 = \<bar>v2\<bar> * sgn v2 \<and> e2 = \<bar>v1\<bar> * sgn v1)
           \<and> SeparateX_impact E leftFace body1 body2
                = (avg + (e1 - avg) * bounce_x body1, avg + (e2 - avg) * bounce_x body2))"
  using assms
  by (auto simp add: SeparateX_exchange_def SeparateX_impact_def Let_def power2_eq_square
       sgn_real_def real_sqrt_mult real_sqrt_divide)

text \<open>
  Masses 1 and 4 with velocities -4 and 3: the exchanged velocities are 6 and -2, their mean
  is 2. Masses 1 and 1 with velocities -4 and 2: the exchanged velocities are 2 and -4.
\<close>

theorem SeparateX_impact_both_moving_witness:
  "SeparateX_impact (Arcade (hit FACING_LEFT 2 2)) True
      (dynamicBody\<lparr>velocity_x := - 4, bounce_x := 1 / 2\<rparr>)
      (dynamicBody\<lparr>ident := 3, velocity_x := 3, mass := 4, bounce_x := 1\<rparr>) = (4, - 2)
   \<and> SeparateX_impact (Arcade (hit FACING_LEFT 2 2)) True
      (dynamicBody\<lparr>velocity_x := - 4, bounce_x := 1 / 2\<rparr>)
      (dynamicBody\<lparr>ident := 3, velocity_x := 2, bounce_x := 1\<rparr>) = (1 / 2, - 4)"
  using SeparateX_impact_both_moving[of "Arcade (hit FACING_LEFT 2 2)"
      "dynamicBody\<lparr>velocity_x := - 4, bounce_x := 1 / 2\<rparr>"
      "dynamicBody\<lparr>ident := 3, velocity_x := 3, mass := 4, bounce_x := 1\<rparr>" True]
    SeparateX_impact_both_moving[of "Arcade (hit FACING_LEFT 2 2)"
      "dynamicBody\<lparr>velocity_x := - 4, bounce_x := 1 / 2\<rparr>"
      "dynamicBody\<lparr>ident := 3, velocity_x := 2, bounce_x := 1\<rparr>" True]
  by (simp add: Arcade_def Body_movingX_def dynamicBody_def Let_def sqrt_36)

text \<open>
  C9 as stated fails for bounce 1: two bodies of mass 1 with velocities 1 and -1 and bounce
  1, the first with a minimum velocity of 2. The impact swaps the velocities, but the first
  body's new velocity -1 reverses its direction with a magnitude below its threshold, so line
  195 zeroes it: the call stores 0, not -1.
\<close>

theorem SeparateX_equal_mass_head_on_damped:
  "SeparateX (Arcade (hit FACING_LEFT 2 2)) Undefined
      (dynamicBody\<lparr>velocity_x := 1, bounce_x := 1, minVelocity_x := 2\<rparr>)
      (dynamicBody\<lparr>ident := 3, velocity_x := - 1, bounce_x := 1\<rparr>) False 0 =
    Inr \<lparr>out1 = dynamicBody\<lparr>body_y := 2, velocity_x := 0, bounce_x := 1, minVelocity_x := 2\<rparr>,
         out2 = dynamicBody\<lparr>ident := 3, body_y := 2, velocity_x := 1, bounce_x := 1\<rparr>,
         ret = True, console = []\<rparr>"
  by (simp add: SeparateX_def SeparateX_aborts_def SeparateX_impact_def SeparateX_exchange_def
      SeparateX_separate_def SeparateX_flip_def SeparateX_body1_def SeparateX_body2_def
      SeparateX_blocked_def SeparateX_wake_def Arcade_def hit_def dynamicBody_def
      Body_movingX_def Body_isBlockedX_def Body_getMoveX_def Let_def)

text \<open>
  C9, amended: for two bodies of equal mass with equal and opposite X velocities that both
  satisfy the moving predicate, in a call that does not return early. If both bounce values
  are 1, the velocities resolved by the impact are exactly swapped, and the velocity the call
  stores in each body is the other body's original velocity unless a later step zeroes it,
  and 0 exactly then. The later steps are: the degenerate contact (both shares zero with a
  nonzero overlap); the flip-flop damping (the body is awake, the new velocity reverses its
  direction and is smaller in magnitude than its minimum velocity); the obstruction test of
  lines 242 and 319 and \<^verbatim>\<open>isBlockedX\<close>, on the body as its position correction leaves
  it; and the sleep threshold (the body is asleep and the new velocity is smaller in
  magnitude than its minimum velocity). If both bounce values are 0, the call stores 0 in
  both bodies.
\<close>

theorem SeparateX_equal_mass_head_on:
  assumes "\<not> SeparateX_aborts (GetOverlapX E body1 body2 overlapOnly bias) body1 body2 overlapOnly"
    and "movingX E body1" and "movingX E body2"
    and "mass body1 = mass body2"
    and "velocity_x body2 = - velocity_x body1"
  shows "(let ci = GetOverlapX E body1 body2 overlapOnly bias;
              x1 = velocity_x body1;
              x2 = velocity_x body2;
              degenerate = (share1 ci = 0 \<and> share2 ci = 0 \<and> overlapY ci \<noteq> 0);
              damped1 = (\<not> sleeping body1 \<and> ((x1 < 0 \<and> x2 > 0) \<or> (x1 > 0 \<and> x2 < 0))
                         \<and> \<bar>x2\<bar> < minVelocity_x body1);
              damped2 = (\<not> sleeping body2 \<and> ((x2 < 0 \<and> x1 > 0) \<or> (x2 > 0 \<and> x1 < 0))
                         \<and> \<bar>x1\<bar> < minVelocity_x body2);
              c1 = fst (SeparateX_body1 E ci body1 body2 x2);
              b1 = fst (SeparateX_body1 E ci body1 body2 (if damped1 then 0 else x2));
              c2 = fst (SeparateX_body2 E ci b1 body2 x1);
              zeroed1 = (degenerate \<or> damped1
                         \<or> (sleeping c1 \<and> x2 < 0 \<and> isBlockedLeft E c1)
                         \<or> (x2 > 0 \<and> isBlockedRight E c1)
                         \<or> isBlockedX E c1
                         \<or> (sleeping c1 \<and> \<bar>x2\<bar> < minVelocity_x c1));
              zeroed2 = (degenerate \<or> damped2
                         \<or> (sleeping c2 \<and> x1 < 0 \<and> isBlockedLeft E c2)
                         \<or> (x1 > 0 \<and> isBlockedRight E c2)
                         \<or> isBlockedX E c2
                         \<or> (sleeping c2 \<and> \<bar>x1\<bar> < minVelocity_x c2))
          in (bounce_x body1 = 1 \<and> bounce_x body2 = 1 \<longrightarrow>
                SeparateX_impact E (face ci = FACING_LEFT) body1 body2 = (x2, x1)
                \<and> (\<exists>r. SeparateX E this body1 body2 overlapOnly bias = Inr r
                      \<and> velocity_x (out1 r) = (if zeroed1 then 0 else x2)
                      \<and> velocity_x (out2 r) = (if zeroed2 then 0 else x1)))
           \<and> (bounce_x body1 = 0 \<and> bounce_x body2 = 0 \<longrightarrow>
                (\<exists>r. SeparateX E this body1 body2 overlapOnly bias = Inr r
                      \<and> velocity_x (out1 r) = 0 \<and> velocity_x (out2 r) = 0)))"
proof -
  let ?ci = "GetOverlapX E body1 body2 overlapOnly bias"
  let ?lf = "face ?ci = FACING_LEFT"
  have ex: "\<And>x1 x2. SeparateX_exchange x1 x2 (mass body1) (mass body2) = (x2, x1)"
    using assms(4) by (simp add: SeparateX_exchange_def abs_if)
  have one: "SeparateX_impact E ?lf body1 body2 = (velocity_x body2, velocity_x body1)"
    if "bounce_x body1 = 1 \<and> bounce_x body2 = 1"
    using that assms(2,3,5) by (simp add: SeparateX_impact_def ex Let_def)
  have zero: "SeparateX_impact E ?lf body1 body2 = (0, 0)"
    if "bounce_x body1 = 0 \<and> bounce_x body2 = 0"
    using that assms(2,3,5) by (simp add: SeparateX_impact_def ex Let_def)
  note st = SeparateX_stored[OF assms(1), of this, unfolded Let_def]
  have Z: "\<exists>r. SeparateX E this body1 body2 overlapOnly bias = Inr r
              \<and> velocity_x (out1 r) = 0 \<and> velocity_x (out2 r) = 0"
    if h: "bounce_x body1 = 0 \<and> bounce_x body2 = 0"
    using st unfolding zero[OF h] fst_conv snd_conv by auto
  show ?thesis
  proof (cases "bounce_x body1 = 1 \<and> bounce_x body2 = 1")
    case True
    have nz: "\<not> (bounce_x body1 = 0 \<and> bounce_x body2 = 0)" using True by simp
    show ?thesis
      unfolding Let_def using True nz st[unfolded one[OF True] fst_conv snd_conv] one[OF True]
      by simp
  next
    case False
    then show ?thesis unfolding Let_def using Z by blast
  qed
qed

text \<open>
  Velocities 3 and -3 with bounce 1 and no threshold: the call stores -3 and 3. Velocities
  1 and -1 with a minimum velocity of 2 on the first body: the call stores 0 and 1. Bounce 0:
  the call stores 0 and 0.
\<close>

theorem SeparateX_equal_mass_head_on_witness:
  "(\<exists>r. SeparateX (Arcade (hit FACING_LEFT 2 2)) Undefined
      (dynamicBody\<lparr>velocity_x := 3, bounce_x := 1\<rparr>)
      (dynamicBody\<lparr>ident := 3, velocity_x := - 3, bounce_x := 1\<rparr>) False 0 = Inr r
        \<and> velocity_x (out1 r) = - 3 \<and> velocity_x (out2 r) = 3)
   \<and> (\<exists>r. SeparateX (Arcade (hit FACING_LEFT 2 2)) Undefined
      (dynamicBody\<lparr>velocity_x := 1, bounce_x := 1, minVelocity_x := 2\<rparr>)
      (dynamicBody\<lparr>ident := 3, velocity_x := - 1, bounce_x := 1\<rparr>) False 0 = Inr r
        \<and> velocity_x (out1 r) = 0 \<and> velocity_x (out2 r) = 1)
   \<and> (\<exists>r. SeparateX (Arcade (hit FACING_LEFT 2 2)) Undefined
      (dynamicBody\<lparr>velocity_x := 3\<rparr>)
      (dynamicBody\<lparr>ident := 3, velocity_x := - 3\<rparr>) False 0 = Inr r
        \<and> velocity_x (out1 r) = 0 \<and> velocity_x (out2 r) = 0)"
  using SeparateX_equal_mass_head_on[of "Arcade (hit FACING_LEFT 2 2)" "dynamicBody\<lparr>velocity_x := 3, bounce_x := 1\<rparr>"
      "dynamicBody\<lparr>ident := 3, velocity_x := - 3, bounce_x := 1\<rparr>" False 0 Undefined]
    SeparateX_equal_mass_head_on[of "Arcade (hit FACING_LEFT 2 2)"
      "dynamicBody\<lparr>velocity_x := 1, bounce_x := 1, minVelocity_x := 2\<rparr>"
      "dynamicBody\<lparr>ident := 3, velocity_x := - 1, bounce_x := 1\<rparr>" False 0 Undefined]
    SeparateX_equal_mass_head_on[of "Arcade (hit FACING_LEFT 2 2)" "dynamicBody\<lparr>velocity_x := 3\<rparr>"
      "dynamicBody\<lparr>ident := 3, velocity_x := - 3\<rparr>" False 0 Undefined]
  by (simp add: Arcade_def hit_def SeparateX_aborts_def SeparateX_body1_def SeparateX_body2_def
      Body_movingX_def Body_isBlockedX_def Body_getMoveX_def dynamicBody_def Let_def)

text \<open>
  C6 as stated fails: a body moving at -3 with a minimum velocity of 2 meets a rideable
  static body on its left face. The impact gives it the unit velocity 1; that reverses its
  direction with a magnitude below its threshold, so line 195 zeroes it, and the call stores
  0 whatever the bounce.
\<close>

theorem SeparateX_rideable_nudge_damped:
  "Body_movingX (dynamicBody\<lparr>velocity_x := - 3, minVelocity_x := 2\<rparr>)
   \<and> \<not> Body_movingX (staticBody\<lparr>rideable := True\<rparr>)
   \<and> SeparateX (Arcade (hit FACING_LEFT 4 0)) Undefined
      (dynamicBody\<lparr>velocity_x := - 3, minVelocity_x := 2\<rparr>)
      (staticBody\<lparr>rideable := True\<rparr>) False 0 =
    Inr \<lparr>out1 = dynamicBody\<lparr>body_y := 4, velocity_x := 0, minVelocity_x := 2\<rparr>,
         out2 = staticBody\<lparr>rideable := True\<rparr>,
         ret = True, console = []\<rparr>"
  by (simp add: SeparateX_def SeparateX_aborts_def SeparateX_impact_def
      SeparateX_separate_def SeparateX_flip_def SeparateX_body1_def SeparateX_body2_def
      SeparateX_blocked_def SeparateX_wake_def Arcade_def hit_def dynamicBody_def staticBody_def
      Body_movingX_def Body_isBlockedX_def Body_getMoveX_def Let_def)

text \<open>
  C6, amended: in a call that does not return early, in which exactly one body satisfies the
  moving predicate and the other body is rideable, the velocity the impact resolves for the
  moving body is 1 when the contact face is the left face and -1 otherwise, regardless of
  its bounce; the velocity the call stores in the moving body is that unit velocity unless a
  later step zeroes it, and 0 exactly then. The later steps are: the degenerate contact
  (both shares zero with a nonzero overlap); the flip-flop damping (the body is awake, the
  unit velocity reverses its direction and its minimum velocity exceeds 1); the obstruction
  test of lines 242 and 319 and \<^verbatim>\<open>isBlockedX\<close>, on the body as its position correction
  leaves it; and the sleep threshold (the body is asleep and its minimum velocity exceeds 1).
\<close>

theorem SeparateX_rideable_nudge:
  assumes "\<not> SeparateX_aborts (GetOverlapX E body1 body2 overlapOnly bias) body1 body2 overlapOnly"
  shows "(let ci = GetOverlapX E body1 body2 overlapOnly bias;
              nudge = (if face ci = FACING_LEFT then 1 else - 1);
              impact = SeparateX_impact E (face ci = FACING_LEFT) body1 body2;
              x1 = velocity_x body1;
              x2 = velocity_x body2;
              degenerate = (share1 ci = 0 \<and> share2 ci = 0 \<and> overlapY ci \<noteq> 0);
              c1 = fst (SeparateX_body1 E ci body1 body2 nudge);
              b1 = fst (SeparateX_body1 E ci body1 body2 x1);
              c2 = fst (SeparateX_body2 E ci b1 body2 nudge);
              zeroed1 = (degenerate
                         \<or> (\<not> sleeping body1 \<and> ((x1 < 0 \<and> nudge > 0) \<or> (x1 > 0 \<and> nudge < 0))
                             \<and> 1 < minVelocity_x body1)
                         \<or> (sleeping c1 \<and> nudge < 0 \<and> isBlockedLeft E c1)
                         \<or> (nudge > 0 \<and> isBlockedRight E c1)
                         \<or> isBlockedX E c1
                         \<or> (sleeping c1 \<and> 1 < minVelocity_x c1));
              zeroed2 = (degenerate
                         \<or> (\<not> sleeping body2 \<and> ((x2 < 0 \<and> nudge > 0) \<or> (x2 > 0 \<and> nudge < 0))
                             \<and> 1 < minVelocity_x body2)
                         \<or> (sleeping c2 \<and> nudge < 0 \<and> isBlockedLeft E c2)
                         \<or> (nudge > 0 \<and> isBlockedRight E c2)
                         \<or> isBlockedX E c2
                         \<or> (sleeping c2 \<and> 1 < minVelocity_x c2))
          in (movingX E body1 \<and> \<not> movingX E body2 \<and> rideable body2 \<longrightarrow>
                fst impact = nudge
                \<and> (\<exists>r. SeparateX E this body1 body2 overlapOnly bias = Inr r
                      \<and> velocity_x (out1 r) = (if zeroed1 then 0 else nudge)))
           \<and> (movingX E body2 \<and> \<not> movingX E body1 \<and> rideable body1 \<longrightarrow>
                snd impact = nudge
                \<and> (\<exists>r. SeparateX E this body1 body2 overlapOnly bias = Inr r
                      \<and> velocity_x (out2 r) = (if zeroed2 then 0 else nudge))))"
proof -
  let ?ci = "GetOverlapX E body1 body2 overlapOnly bias"
  let ?lf = "face ?ci = FACING_LEFT"
  let ?nudge = "if ?lf then 1 else (- 1 :: real)"
  have abs: "\<bar>?nudge\<bar> = 1" by simp
  have one: "SeparateX_impact E ?lf body1 body2 = (?nudge, velocity_x body2)"
    if "movingX E body1 \<and> \<not> movingX E body2 \<and> rideable body2"
    using that by (simp add: SeparateX_impact_def Let_def)
  have two: "SeparateX_impact E ?lf body1 body2 = (velocity_x body1, ?nudge)"
    if "movingX E body2 \<and> \<not> movingX E body1 \<and> rideable body1"
    using that by (simp add: SeparateX_impact_def Let_def)
  have nodamp: "\<not> (\<not> sleeping body1
       \<and> ((velocity_x body1 < 0 \<and> velocity_x body1 > 0) \<or> (velocity_x body1 > 0 \<and> velocity_x body1 < 0))
       \<and> \<bar>velocity_x body1\<bar> < minVelocity_x body1)"
    by auto
  note st = SeparateX_stored[OF assms, of this, unfolded Let_def]
  have A: ?thesis if h: "movingX E body1 \<and> \<not> movingX E body2 \<and> rideable body2"
  proof -
    from st obtain r where r: "SeparateX E this body1 body2 overlapOnly bias = Inr r"
      and v: "velocity_x (out1 r) =
        (if (share1 ?ci = 0 \<and> share2 ?ci = 0 \<and> overlapY ?ci \<noteq> 0)
            \<or> (\<not> sleeping body1 \<and> ((velocity_x body1 < 0 \<and> ?nudge > 0) \<or> (velocity_x body1 > 0 \<and> ?nudge < 0))
                \<and> \<bar>?nudge\<bar> < minVelocity_x body1)
            \<or> (sleeping (fst (SeparateX_body1 E ?ci body1 body2 ?nudge)) \<and> ?nudge < 0
                 \<and> isBlockedLeft E (fst (SeparateX_body1 E ?ci body1 body2 ?nudge)))
            \<or> (?nudge > 0 \<and> isBlockedRight E (fst (SeparateX_body1 E ?ci body1 body2 ?nudge)))
            \<or> isBlockedX E (fst (SeparateX_body1 E ?ci body1 body2 ?nudge))
            \<or> (sleeping (fst (SeparateX_body1 E ?ci body1 body2 ?nudge))
                 \<and> \<bar>?nudge\<bar> < minVelocity_x (fst (SeparateX_body1 E ?ci body1 body2 ?nudge)))
         then 0 else ?nudge)"
      unfolding one[OF h] fst_conv snd_conv by blast
    show ?thesis
      unfolding Let_def using h r v unfolding abs one[OF h] fst_conv by auto
  qed
  have B: ?thesis if h: "movingX E body2 \<and> \<not> movingX E body1 \<and> rideable body1"
  proof -
    let ?b1 = "fst (SeparateX_body1 E ?ci body1 body2 (velocity_x body1))"
    let ?c2 = "fst (SeparateX_body2 E ?ci ?b1 body2 ?nudge)"
    from st obtain r where r: "SeparateX E this body1 body2 overlapOnly bias = Inr r"
      and v: "velocity_x (out2 r) =
        (if (share1 ?ci = 0 \<and> share2 ?ci = 0 \<and> overlapY ?ci \<noteq> 0)
            \<or> (\<not> sleeping body2 \<and> ((velocity_x body2 < 0 \<and> ?nudge > 0) \<or> (velocity_x body2 > 0 \<and> ?nudge < 0))
                \<and> \<bar>?nudge\<bar> < minVelocity_x body2)
            \<or> (sleeping ?c2 \<and> ?nudge < 0 \<and> isBlockedLeft E ?c2)
            \<or> (?nudge > 0 \<and> isBlockedRight E ?c2)
            \<or> isBlockedX E ?c2
            \<or> (sleeping ?c2 \<and> \<bar>?nudge\<bar> < minVelocity_x ?c2)
         then 0 else ?nudge)"
      unfolding two[OF h] fst_conv snd_conv if_not_P[OF nodamp] by blast
    show ?thesis
      unfolding Let_def using h r v unfolding abs two[OF h] snd_conv by auto
  qed
  show ?thesis
  proof (cases "movingX E body1 \<and> \<not> movingX E body2 \<and> rideable body2")
    case True then show ?thesis by (rule A)
  next
    case n1: False
    show ?thesis
    proof (cases "movingX E body2 \<and> \<not> movingX E body1 \<and> rideable body1")
      case True then show ?thesis by (rule B)
    next
      case False with n1 show ?thesis unfolding Let_def by blast
    qed
  qed
qed

text \<open>
  A body moving at -3 with bounce 1/2 and no threshold against a rideable static body on its
  left face: the call stores 1. As the second body of the call, on the right contact face:
  the call stores -1. With a minimum velocity of 2 the damping zeroes the nudge: the call
  stores 0.
\<close>

theorem SeparateX_rideable_nudge_witness:
  "(\<exists>r. SeparateX (Arcade (hit FACING_LEFT 4 0)) Undefined
      (dynamicBody\<lparr>velocity_x := - 3, bounce_x := 1 / 2\<rparr>)
      (staticBody\<lparr>rideable := True\<rparr>) False 0 = Inr r
        \<and> velocity_x (out1 r) = 1)
   \<and> (\<exists>r. SeparateX (Arcade (hit FACING_RIGHT 0 4)) Undefined
      (staticBody\<lparr>rideable := True\<rparr>)
      (dynamicBody\<lparr>velocity_x := 3, bounce_x := 1 / 2\<rparr>) False 0 = Inr r
        \<and> velocity_x (out2 r) = - 1)
   \<and> (\<exists>r. SeparateX (Arcade (hit FACING_LEFT 4 0)) Undefined
      (dynamicBody\<lparr>velocity_x := - 3, minVelocity_x := 2\<rparr>)
      (staticBody\<lparr>rideable := True\<rparr>) False 0 = Inr r
        \<and> velocity_x (out1 r) = 0)"
  using SeparateX_rideable_nudge[of "Arcade (hit FACING_LEFT 4 0)"
      "dynamicBody\<lparr>velocity_x := - 3, bounce_x := 1 / 2\<rparr>"
      "staticBody\<lparr>rideable := True\<rparr>" False 0 Undefined]
    SeparateX_rideable_nudge[of "Arcade (hit FACING_RIGHT 0 4)" "staticBody\<lparr>rideable := True\<rparr>"
      "dynamicBody\<lparr>velocity_x := 3, bounce_x := 1 / 2\<rparr>" False 0 Undefined]
    SeparateX_rideable_nudge[of "Arcade (hit FACING_LEFT 4 0)"
      "dynamicBody\<lparr>velocity_x := - 3, minVelocity_x := 2\<rparr>"
      "staticBody\<lparr>rideable := True\<rparr>" False 0 Undefined]
  by (simp add: Arcade_def hit_def SeparateX_aborts_def SeparateX_body1_def SeparateX_body2_def
      Body_movingX_def Body_isBlockedX_def Body_getMoveX_def dynamicBody_def staticBody_def Let_def)

subsection \<open>Sleep\<close>

text \<open>
  C5 as stated, "a sleeping body is woken if and only if the magnitude of its resolved
  velocity exceeds its threshold", fails at equality. A sleeping body with a minimum velocity
  of 2 reaches line 374 with the resolved velocity 2, which does not exceed the threshold;
  the test \<^verbatim>\<open>Math.abs(nx1) < body1.minVelocity.x\<close> of line 376 is false, so the body is
  woken and keeps the velocity 2.
\<close>

theorem SeparateX_wake_at_threshold:
  "SeparateX_impact (Arcade (hit FACING_LEFT 4 0)) True
      (dynamicBody\<lparr>velocity_x := - 4, bounce_x := 1 / 2, sleeping := True, minVelocity_x := 2\<rparr>)
      staticBody = (2, 0)
   \<and> SeparateX_separate (Arcade (hit FACING_LEFT 4 0)) (hit FACING_LEFT 4 0)
      (dynamicBody\<lparr>velocity_x := - 4, bounce_x := 1 / 2, sleeping := True, minVelocity_x := 2\<rparr>)
      staticBody 2 0
      = ((dynamicBody\<lparr>body_y := 4, velocity_x := - 4, bounce_x := 1 / 2, sleeping := True,
            minVelocity_x := 2\<rparr>, 2), (staticBody, 0))
   \<and> \<not> minVelocity_x (dynamicBody\<lparr>body_y := 4, velocity_x := - 4, bounce_x := 1 / 2,
            sleeping := True, minVelocity_x := 2\<rparr>) < \<bar>2\<bar>
   \<and> SeparateX (Arcade (hit FACING_LEFT 4 0)) Undefined
      (dynamicBody\<lparr>velocity_x := - 4, bounce_x := 1 / 2, sleeping := True, minVelocity_x := 2\<rparr>)
      staticBody False 0 =
    Inr \<lparr>out1 = dynamicBody\<lparr>body_y := 4, velocity_x := 2, bounce_x := 1 / 2, sleeping := False,
            minVelocity_x := 2\<rparr>,
         out2 = staticBody, ret = True, console = []\<rparr>"
  by (simp add: SeparateX_def SeparateX_aborts_def SeparateX_impact_def
      SeparateX_separate_def SeparateX_flip_def SeparateX_body1_def SeparateX_body2_def
      SeparateX_blocked_def SeparateX_wake_def Arcade_def hit_def dynamicBody_def staticBody_def
      Body_movingX_def Body_isBlockedX_def Body_getMoveX_def Body_wake_def Let_def)

text \<open>
  C5, amended: in every call that reaches the test of line 374, where \<open>b1\<close> and \<open>b2\<close> are
  the bodies and \<open>v1\<close> and \<open>v2\<close> their resolved velocities at that point: a body flagged
  sleeping is woken if and only if the magnitude of its resolved velocity is at least its
  minimum velocity, and then keeps the resolved velocity; when it is not woken the call
  stores 0 in its X velocity and it remains asleep; a body not flagged sleeping is not woken
  and the call stores its resolved velocity unaltered.
\<close>

theorem SeparateX_sleep_hysteresis:
  assumes "\<not> SeparateX_aborts (GetOverlapX E body1 body2 overlapOnly bias) body1 body2 overlapOnly"
    and "\<not> (share1 (GetOverlapX E body1 body2 overlapOnly bias) = 0
            \<and> share2 (GetOverlapX E body1 body2 overlapOnly bias) = 0
            \<and> overlapY (GetOverlapX E body1 body2 overlapOnly bias) \<noteq> 0)"
    and "SeparateX_separate E (GetOverlapX E body1 body2 overlapOnly bias) body1 body2
           (fst (SeparateX_impact E
              (face (GetOverlapX E body1 body2 overlapOnly bias) = FACING_LEFT) body1 body2))
           (snd (SeparateX_impact E
              (face (GetOverlapX E body1 body2 overlapOnly bias) = FACING_LEFT) body1 body2))
         = ((b1, v1), (b2, v2))"
  shows "\<exists>r. SeparateX E this body1 body2 overlapOnly bias = Inr r
           \<and> (sleeping b1 \<and> minVelocity_x b1 \<le> \<bar>v1\<bar> \<longrightarrow>
                out1 r = (wake E b1)\<lparr>velocity_x := v1\<rparr>)
           \<and> (sleeping b1 \<and> \<bar>v1\<bar> < minVelocity_x b1 \<longrightarrow>
                out1 r = b1\<lparr>velocity_x := 0\<rparr> \<and> velocity_x (out1 r) = 0 \<and> sleeping (out1 r))
           \<and> (\<not> sleeping b1 \<longrightarrow> out1 r = b1\<lparr>velocity_x := v1\<rparr> \<and> \<not> sleeping (out1 r))
           \<and> (sleeping b2 \<and> minVelocity_x b2 \<le> \<bar>v2\<bar> \<longrightarrow>
                out2 r = (wake E b2)\<lparr>velocity_x := v2\<rparr>)
           \<and> (sleeping b2 \<and> \<bar>v2\<bar> < minVelocity_x b2 \<longrightarrow>
                out2 r = b2\<lparr>velocity_x := 0\<rparr> \<and> velocity_x (out2 r) = 0 \<and> sleeping (out2 r))
           \<and> (\<not> sleeping b2 \<longrightarrow> out2 r = b2\<lparr>velocity_x := v2\<rparr> \<and> \<not> sleeping (out2 r))"
proof -
  let ?ci = "GetOverlapX E body1 body2 overlapOnly bias"
  obtain n1 n2 where imp: "SeparateX_impact E (face ?ci = FACING_LEFT) body1 body2 = (n1, n2)"
    by (cases "SeparateX_impact E (face ?ci = FACING_LEFT) body1 body2")
  have sep: "SeparateX_separate E ?ci body1 body2 n1 n2 = ((b1, v1), (b2, v2))"
    using assms(3) imp by simp
  have run: "SeparateX E this body1 body2 overlapOnly bias =
               Inr \<lparr>out1 = (fst (SeparateX_wake E b1 v1))\<lparr>velocity_x := snd (SeparateX_wake E b1 v1)\<rparr>,
                    out2 = (fst (SeparateX_wake E b2 v2))\<lparr>velocity_x := snd (SeparateX_wake E b2 v2)\<rparr>,
                    ret = True, console = []\<rparr>"
    using assms(1,2) by (auto simp add: SeparateX_def Let_def imp sep split: prod.splits)
  show ?thesis
    unfolding run by (simp add: SeparateX_wake_def)
qed

text \<open>
  A sleeping body with a minimum velocity of 1 and the resolved velocity 2 is woken and keeps
  the velocity, and a sleeping static body with the resolved velocity 0 stays asleep; with a
  minimum velocity of 3 the first body stays asleep and 0 is stored, and a static body that
  is awake stays as it is.
\<close>

theorem SeparateX_sleep_hysteresis_witness:
  "(\<exists>r. SeparateX (Arcade (hit FACING_LEFT 4 0)) Undefined
      (dynamicBody\<lparr>velocity_x := - 4, bounce_x := 1 / 2, sleeping := True, minVelocity_x := 1\<rparr>)
      (staticBody\<lparr>sleeping := True, minVelocity_x := 1\<rparr>) False 0 = Inr r
     \<and> out1 r = dynamicBody\<lparr>body_y := 4, velocity_x := 2, bounce_x := 1 / 2, sleeping := False,
                    minVelocity_x := 1\<rparr>
     \<and> out2 r = staticBody\<lparr>sleeping := True, minVelocity_x := 1\<rparr>)
   \<and> (\<exists>r. SeparateX (Arcade (hit FACING_LEFT 4 0)) Undefined
      (dynamicBody\<lparr>velocity_x := - 4, bounce_x := 1 / 2, sleeping := True, minVelocity_x := 3\<rparr>)
      staticBody False 0 = Inr r
     \<and> out1 r = dynamicBody\<lparr>body_y := 4, velocity_x := 0, bounce_x := 1 / 2, sleeping := True,
                    minVelocity_x := 3\<rparr>
     \<and> out2 r = staticBody)"
  using SeparateX_sleep_hysteresis[of "Arcade (hit FACING_LEFT 4 0)"
      "dynamicBody\<lparr>velocity_x := - 4, bounce_x := 1 / 2, sleeping := True, minVelocity_x := 1\<rparr>"
      "staticBody\<lparr>sleeping := True, minVelocity_x := 1\<rparr>" False 0
      "dynamicBody\<lparr>body_y := 4, velocity_x := - 4, bounce_x := 1 / 2, sleeping := True,
         minVelocity_x := 1\<rparr>"
      2 "staticBody\<lparr>sleeping := True, minVelocity_x := 1\<rparr>" 0 Undefined]
    SeparateX_sleep_hysteresis[of "Arcade (hit FACING_LEFT 4 0)"
      "dynamicBody\<lparr>velocity_x := - 4, bounce_x := 1 / 2, sleeping := True, minVelocity_x := 3\<rparr>"
      staticBody False 0
      "dynamicBody\<lparr>body_y := 4, velocity_x := - 4, bounce_x := 1 / 2, sleeping := True,
         minVelocity_x := 3\<rparr>"
      2 staticBody 0 Undefined]
  by (auto simp add: SeparateX_aborts_def SeparateX_impact_def
      SeparateX_separate_def SeparateX_flip_def SeparateX_body1_def SeparateX_body2_def
      SeparateX_blocked_def Arcade_def hit_def dynamicBody_def staticBody_def
      Body_movingX_def Body_isBlockedX_def Body_getMoveX_def Body_wake_def Let_def)

subsection \<open>Position correction\<close>

text \<open>
  C1: which coordinate the position correction changes. In a call that reaches the position
  correction, a body whose resolved velocity is nonzero, and whose partner does not report
  being blocked on the mirrored contact face, is moved by the share of the overlap that
  \<^verbatim>\<open>getMoveX\<close> returns for it; the source adds that move to \<^verbatim>\<open>body.y\<close> (lines 223,
  237, 300 and 314), so it is the y coordinate that is translated and the x coordinate that
  is left unchanged. The waking of a body is assumed not to move it.
\<close>

theorem SeparateX_moves_y:
  assumes "\<not> SeparateX_aborts (GetOverlapX E body1 body2 overlapOnly bias) body1 body2 overlapOnly"
    and "\<not> (share1 (GetOverlapX E body1 body2 overlapOnly bias) = 0
            \<and> share2 (GetOverlapX E body1 body2 overlapOnly bias) = 0
            \<and> overlapY (GetOverlapX E body1 body2 overlapOnly bias) \<noteq> 0)"
    and "\<And>b. body_x (wake E b) = body_x b \<and> body_y (wake E b) = body_y b"
  shows "(let ci = GetOverlapX E body1 body2 overlapOnly bias;
              leftFace = (face ci = FACING_LEFT);
              impact = SeparateX_impact E leftFace body1 body2;
              nx1 = SeparateX_flip body1 (velocity_x body1) (fst impact);
              nx2 = SeparateX_flip body2 (velocity_x body2) (snd impact);
              b1 = fst (SeparateX_body1 E ci body1 body2 nx1)
          in \<exists>r. SeparateX E this body1 body2 overlapOnly bias = Inr r
               \<and> (nx1 \<noteq> 0
                   \<and> \<not> (if leftFace then isBlockedLeft E body2 else isBlockedRight E body2) \<longrightarrow>
                     body_x (out1 r) = body_x body1
                     \<and> body_y (out1 r) = body_y body1 + getMoveX E body1 (share1 ci))
               \<and> (nx2 \<noteq> 0
                   \<and> \<not> (if leftFace then isBlockedRight E b1 else isBlockedLeft E b1) \<longrightarrow>
                     body_x (out2 r) = body_x body2
                     \<and> body_y (out2 r) = body_y body2 + getMoveX E body2 (share2 ci)))"
proof -
  let ?ci = "GetOverlapX E body1 body2 overlapOnly bias"
  let ?lf = "face ?ci = FACING_LEFT"
  obtain n1 n2 where imp: "SeparateX_impact E ?lf body1 body2 = (n1, n2)"
    by (cases "SeparateX_impact E ?lf body1 body2")
  let ?nx1 = "SeparateX_flip body1 (velocity_x body1) n1"
  let ?nx2 = "SeparateX_flip body2 (velocity_x body2) n2"
  obtain c1 m1 where s1: "SeparateX_body1 E ?ci body1 body2 ?nx1 = (c1, m1)"
    by (cases "SeparateX_body1 E ?ci body1 body2 ?nx1")
  obtain c2 m2 where s2: "SeparateX_body2 E ?ci c1 body2 ?nx2 = (c2, m2)"
    by (cases "SeparateX_body2 E ?ci c1 body2 ?nx2")
  have sep: "SeparateX_separate E ?ci body1 body2 n1 n2
               = ((c1, SeparateX_blocked E c1 m1), (c2, SeparateX_blocked E c2 m2))"
    by (simp add: SeparateX_separate_def Let_def s1 s2)
  have wx: "body_x (fst (SeparateX_wake E b v)) = body_x b"
    and wy: "body_y (fst (SeparateX_wake E b v)) = body_y b" for b v
    using assms(3) by (simp_all add: SeparateX_wake_def)
  have run: "SeparateX E this body1 body2 overlapOnly bias =
               Inr \<lparr>out1 = (fst (SeparateX_wake E c1 (SeparateX_blocked E c1 m1)))
                        \<lparr>velocity_x := snd (SeparateX_wake E c1 (SeparateX_blocked E c1 m1))\<rparr>,
                    out2 = (fst (SeparateX_wake E c2 (SeparateX_blocked E c2 m2)))
                        \<lparr>velocity_x := snd (SeparateX_wake E c2 (SeparateX_blocked E c2 m2))\<rparr>,
                    ret = True, console = []\<rparr>"
    using assms(1,2) by (auto simp add: SeparateX_def Let_def imp sep split: prod.splits)
  have p1: "c1 = body1\<lparr>body_y := body_y body1 + getMoveX E body1 (share1 ?ci)\<rparr>"
    if "?nx1 \<noteq> 0" "\<not> (if ?lf then isBlockedLeft E body2 else isBlockedRight E body2)"
    using that s1 by (auto simp add: SeparateX_body1_def Let_def split: if_splits)
  have p2: "c2 = body2\<lparr>body_y := body_y body2 + getMoveX E body2 (share2 ?ci)\<rparr>"
    if "?nx2 \<noteq> 0" "\<not> (if ?lf then isBlockedRight E c1 else isBlockedLeft E c1)"
    using that s2 by (auto simp add: SeparateX_body2_def Let_def split: if_splits)
  show ?thesis
    unfolding Let_def imp fst_conv snd_conv s1 run
    using p1 p2 by (auto simp add: wx wy)
qed

text \<open>
  A body at (10, 20) moving at -5 with bounce 1/2 meets a static body on its left face, with
  an overlap of 4 apportioned to it: it ends at (10, 24), where a correction along the X
  axis would put it at (14, 20). The same holds when it is the second body of the call.
\<close>

theorem SeparateX_moves_y_witness:
  "(\<exists>r. SeparateX (Arcade (hit FACING_LEFT 4 0)) Undefined
      (dynamicBody\<lparr>body_x := 10, body_y := 20, velocity_x := - 5, bounce_x := 1 / 2\<rparr>)
      staticBody False 0 = Inr r
     \<and> body_x (out1 r) = 10 \<and> body_y (out1 r) = 24)
   \<and> (\<exists>r. SeparateX (Arcade (hit FACING_RIGHT 0 4)) Undefined
      staticBody
      (dynamicBody\<lparr>body_x := 10, body_y := 20, velocity_x := - 5, bounce_x := 1 / 2\<rparr>)
      False 0 = Inr r
     \<and> body_x (out2 r) = 10 \<and> body_y (out2 r) = 24)"
  using SeparateX_moves_y[of "Arcade (hit FACING_LEFT 4 0)"
      "dynamicBody\<lparr>body_x := 10, body_y := 20, velocity_x := - 5, bounce_x := 1 / 2\<rparr>"
      staticBody False 0 Undefined]
    SeparateX_moves_y[of "Arcade (hit FACING_RIGHT 0 4)" staticBody
      "dynamicBody\<lparr>body_x := 10, body_y := 20, velocity_x := - 5, bounce_x := 1 / 2\<rparr>"
      False 0 Undefined]
  by (auto simp add: SeparateX_aborts_def SeparateX_impact_def SeparateX_flip_def
      SeparateX_body1_def Arcade_def hit_def dynamicBody_def staticBody_def
      Body_movingX_def Body_getMoveX_def Body_wake_def Let_def)

text \<open>The whole outcome of that call.\<close>

lemma SeparateX_moves_y_example:
  "SeparateX (Arcade (hit FACING_LEFT 4 0)) Undefined
      (dynamicBody\<lparr>body_x := 10, body_y := 20, velocity_x := - 5, bounce_x := 1 / 2\<rparr>)
      staticBody False 0 =
    Inr \<lparr>out1 = dynamicBody\<lparr>body_x := 10, body_y := 24, velocity_x := 5 / 2, bounce_x := 1 / 2\<rparr>,
         out2 = staticBody, ret = True, console = []\<rparr>"
  by (simp add: SeparateX_def SeparateX_aborts_def SeparateX_impact_def
      SeparateX_separate_def SeparateX_flip_def SeparateX_body1_def SeparateX_body2_def
      SeparateX_blocked_def SeparateX_wake_def Arcade_def hit_def dynamicBody_def staticBody_def
      Body_movingX_def Body_isBlockedX_def Body_getMoveX_def Body_wake_def Let_def)

subsection \<open>The two contact faces\<close>

text \<open>
  The stationary case of each body, when its partner reports no blocked face. For
  \<^verbatim>\<open>body2\<close> the face whose blocked state guards the correction is mirrored between the
  two contact faces; for \<^verbatim>\<open>body1\<close> it is the right face on both.
\<close>

lemma SeparateX_body2_stationary:
  assumes "moves body2" and "\<not> isBlockedLeft E body1" and "\<not> isBlockedRight E body1"
  shows "SeparateX_body2 E ci body1 body2 0 =
           (if share2 ci \<noteq> 0
               \<and> \<not> (if face ci = FACING_LEFT then isBlockedRight E body2 else isBlockedLeft E body2)
            then body2\<lparr>body_y := body_y body2 + getMoveX E body2 (share2 ci)\<rparr> else body2, 0)"
  using assms by (simp add: SeparateX_body2_def Let_def)

lemma SeparateX_body1_stationary:
  assumes "moves body1" and "\<not> isBlockedLeft E body2" and "\<not> isBlockedRight E body2"
  shows "SeparateX_body1 E ci body1 body2 0 =
           (if share1 ci \<noteq> 0 \<and> \<not> isBlockedRight E body1
            then body1\<lparr>body_y := body_y body1 + getMoveX E body1 (share1 ci)\<rparr> else body1, 0)"
  using assms by (simp add: SeparateX_body1_def Let_def)

text \<open>
  The condition of line 242, for a body whose blocked state does not depend on its position:
  a velocity to the right is zeroed when the body is blocked on the right; a velocity to the
  left is zeroed when the body is blocked on the left and, in addition, asleep.
\<close>

lemma SeparateX_body1_obstructed:
  assumes "nx1 \<noteq> 0" and "\<not> isBlockedLeft E body2" and "\<not> isBlockedRight E body2"
    and "\<And>v. isBlockedLeft E (body1\<lparr>body_y := v\<rparr>) = isBlockedLeft E body1"
    and "\<And>v. isBlockedRight E (body1\<lparr>body_y := v\<rparr>) = isBlockedRight E body1"
  shows "snd (SeparateX_body1 E ci body1 body2 nx1) =
           (if (nx1 < 0 \<and> isBlockedLeft E body1 \<and> sleeping body1)
               \<or> (nx1 > 0 \<and> isBlockedRight E body1)
            then 0 else nx1)"
  using assms by (auto simp add: SeparateX_body1_def Let_def)

text \<open>
  C3: the handling of the two contact faces is not symmetric for \<^verbatim>\<open>body1\<close>. In a call
  that reaches the position correction with neither body moving, a first body that is under
  physics control and awake, next to a partner that reports no blocked face, receives its
  position correction exactly when its share is nonzero and it is not blocked on the right,
  on the left contact face and on the right contact face alike: the blocking direction is
  not mirrored between the faces.
\<close>

theorem SeparateX_body1_guard_not_mirrored:
  assumes "\<not> SeparateX_aborts (GetOverlapX E body1 body2 overlapOnly bias) body1 body2 overlapOnly"
    and "\<not> (share1 (GetOverlapX E body1 body2 overlapOnly bias) = 0
            \<and> share2 (GetOverlapX E body1 body2 overlapOnly bias) = 0
            \<and> overlapY (GetOverlapX E body1 body2 overlapOnly bias) \<noteq> 0)"
    and "\<not> movingX E body1" and "\<not> movingX E body2"
    and "moves body1" and "\<not> sleeping body1"
    and "\<not> isBlockedLeft E body2" and "\<not> isBlockedRight E body2"
  shows "\<exists>r. SeparateX E this body1 body2 overlapOnly bias = Inr r
           \<and> out1 r =
               (if share1 (GetOverlapX E body1 body2 overlapOnly bias) \<noteq> 0
                   \<and> \<not> isBlockedRight E body1
                then body1\<lparr>body_y := body_y body1
                         + getMoveX E body1 (share1 (GetOverlapX E body1 body2 overlapOnly bias)),
                       velocity_x := 0\<rparr>
                else body1\<lparr>velocity_x := 0\<rparr>)"
proof -
  let ?ci = "GetOverlapX E body1 body2 overlapOnly bias"
  let ?lf = "face ?ci = FACING_LEFT"
  let ?c1 = "if share1 ?ci \<noteq> 0 \<and> \<not> isBlockedRight E body1
             then body1\<lparr>body_y := body_y body1 + getMoveX E body1 (share1 ?ci)\<rparr> else body1"
  have imp: "SeparateX_impact E ?lf body1 body2 = (0, 0)"
    using assms(3,4) by (simp add: SeparateX_impact_def Let_def)
  have s1: "SeparateX_body1 E ?ci body1 body2 0 = (?c1, 0)"
    using assms(5,7,8) by (simp add: SeparateX_body1_stationary)
  obtain c2 m2 where s2: "SeparateX_body2 E ?ci ?c1 body2 0 = (c2, m2)"
    by (cases "SeparateX_body2 E ?ci ?c1 body2 0")
  have sep: "SeparateX_separate E ?ci body1 body2 0 0
               = ((?c1, 0), (c2, SeparateX_blocked E c2 m2))"
    unfolding SeparateX_separate_def Let_def
    by (simp add: SeparateX_flip_def s1 s2 SeparateX_blocked_def del: if_split cong: if_cong)
  have w1: "SeparateX_wake E ?c1 0 = (?c1, 0)"
    using assms(6) by (simp add: SeparateX_wake_def)
  have run: "SeparateX E this body1 body2 overlapOnly bias =
               Inr \<lparr>out1 = ?c1\<lparr>velocity_x := 0\<rparr>,
                    out2 = (fst (SeparateX_wake E c2 (SeparateX_blocked E c2 m2)))
                        \<lparr>velocity_x := snd (SeparateX_wake E c2 (SeparateX_blocked E c2 m2))\<rparr>,
                    ret = True, console = []\<rparr>"
    using assms(1,2) by (auto simp add: SeparateX_def Let_def imp sep w1 split: prod.splits)
  show ?thesis unfolding run by simp
qed

text \<open>
  On the right contact face a stationary first body that is blocked on the left is moved by
  its share of 4; in the mirror image, on the left contact face and blocked on the right, it
  is not moved.
\<close>

theorem SeparateX_body1_guard_not_mirrored_witness:
  "(\<exists>r. SeparateX (Arcade (hit FACING_RIGHT 4 0)) Undefined
        (dynamicBody\<lparr>body_y := 20, blocked_left := True\<rparr>) staticBody False 0 = Inr r
      \<and> out1 r = dynamicBody\<lparr>body_y := 24, blocked_left := True\<rparr>)
   \<and> (\<exists>r. SeparateX (Arcade (hit FACING_LEFT 4 0)) Undefined
        (dynamicBody\<lparr>body_y := 20, blocked_right := True\<rparr>) staticBody False 0 = Inr r
      \<and> out1 r = dynamicBody\<lparr>body_y := 20, blocked_right := True\<rparr>)"
  using SeparateX_body1_guard_not_mirrored[of "Arcade (hit FACING_RIGHT 4 0)"
      "dynamicBody\<lparr>body_y := 20, blocked_left := True\<rparr>" staticBody False 0 Undefined]
    SeparateX_body1_guard_not_mirrored[of "Arcade (hit FACING_LEFT 4 0)"
      "dynamicBody\<lparr>body_y := 20, blocked_right := True\<rparr>" staticBody False 0 Undefined]
  by (auto simp add: SeparateX_aborts_def Arcade_def hit_def dynamicBody_def staticBody_def
      Body_movingX_def Body_getMoveX_def)

end
